theory Spec2Isabelle
  imports Main "HOL-Library.AList"
begin

section \<open>Exceptions\<close>

text \<open>
  The exception classes of \<^verbatim>\<open>src/exceptions.py\<close> and the built-in ones the modelled code
  raises or catches. An exception carries the message literal of its raise site; the
  placeholders of an f-string are kept as written, not interpolated. In Python 3
  \<^verbatim>\<open>IOError\<close> is another name of \<^verbatim>\<open>OSError\<close>; here \<open>IOError\<close> is the exception that
  \<^verbatim>\<open>save\<close> and \<^verbatim>\<open>load\<close> raise themselves and \<open>OSError\<close> the failure of the operating
  system that they catch.
\<close>

datatype error =
    ValidationError string
  | ReservationError string
  | ScheduleConflictError string
  | ValueError string
  | IOError string
  | KeyError
  | TypeError
  | OverflowError
  | AttributeError
  | RecursionError
  | OSError
  | JSONDecodeError

text \<open>
  A method that mutates its object is a function from the object to the exception it
  raised, if any, and the object as the call leaves it.
\<close>

type_synonym 'a effect = "error option \<times> 'a"

section \<open>Hall: the seat counter\<close>

record Hall =
  number :: int
  capacity :: int
  available_seats :: int

definition Hall_init :: "int \<Rightarrow> int \<Rightarrow> error + Hall" where
  "Hall_init num cap =
     (if cap \<le> 0 then Inl (ValidationError ''Capacity must be positive'')
      else Inr \<lparr>number = num, capacity = cap, available_seats = cap\<rparr>)"

definition Hall_reserve_seats :: "Hall \<Rightarrow> int \<Rightarrow> Hall effect" where
  "Hall_reserve_seats self seats =
     (if seats \<le> 0 then (Some (ValidationError ''Number of seats must be positive''), self)
      else if seats > available_seats self
        then (Some (ReservationError ''Not enough seats available''), self)
      else (None, self\<lparr>available_seats := available_seats self - seats\<rparr>))"

definition Hall_cancel_reservation :: "Hall \<Rightarrow> int \<Rightarrow> Hall effect" where
  "Hall_cancel_reservation self seats =
     (if seats \<le> 0 then (Some (ValidationError ''Number of seats must be positive''), self)
      else if seats > capacity self - available_seats self
        then (Some (ReservationError ''Not enough seats to cancel''), self)
      else (None, self\<lparr>available_seats := available_seats self + seats\<rparr>))"

definition hall_inv :: "Hall \<Rightarrow> bool" where
  "hall_inv h \<longleftrightarrow> 0 \<le> available_seats h \<and> available_seats h \<le> capacity h"

section \<open>Instants\<close>

text \<open>
  A naive \<^verbatim>\<open>datetime\<close> is the number of microseconds since 0001-01-01T00:00:00, the
  least value of the type; the greatest is 9999-12-31T23:59:59.999999. Comparison is
  comparison of these numbers, and adding a \<^verbatim>\<open>timedelta\<close> raises OverflowError when the
  sum leaves the range.
\<close>

type_synonym datetime = int

definition datetime_end :: int where
  "datetime_end = 315537897600000000"

definition valid_datetime :: "datetime \<Rightarrow> bool" where
  "valid_datetime t \<longleftrightarrow> 0 \<le> t \<and> t < datetime_end"

definition timedelta_minutes :: "int \<Rightarrow> int" where
  "timedelta_minutes m = m * 60000000"

definition datetime_add :: "datetime \<Rightarrow> int \<Rightarrow> error + datetime" where
  "datetime_add t delta =
     (if valid_datetime (t + delta) then Inr (t + delta) else Inl OverflowError)"

text \<open>
  \<^verbatim>\<open>datetime.isoformat()\<close> of a naive datetime: \<^verbatim>\<open>YYYY-MM-DDTHH:MM:SS\<close>, followed by
  \<^verbatim>\<open>.ffffff\<close> when the microsecond is not zero. The date comes from the day's ordinal by
  the library's own computation over the 400-, 100-, 4- and 1-year cycles.
\<close>

primrec dec :: "nat \<Rightarrow> nat \<Rightarrow> string" where
  "dec 0 n = []"
| "dec (Suc w) n = dec w (n div 10) @ [''0123456789'' ! (n mod 10)]"

definition DAYS_IN_MONTH :: "int list" where
  "DAYS_IN_MONTH = [-1, 31, 28, 31, 30, 31, 30, 31, 31, 30, 31, 30, 31]"

definition DAYS_BEFORE_MONTH :: "int list" where
  "DAYS_BEFORE_MONTH = [-1, 0, 31, 59, 90, 120, 151, 181, 212, 243, 273, 304, 334]"

definition ord2ymd :: "int \<Rightarrow> int \<times> int \<times> int" where
  "ord2ymd ordinal =
     (let n = ordinal - 1;
          n400 = n div 146097; n = n mod 146097;
          n100 = n div 36524; n = n mod 36524;
          n4 = n div 1461; n = n mod 1461;
          n1 = n div 365; n = n mod 365;
          year = n400 * 400 + 1 + n100 * 100 + n4 * 4 + n1
      in if n1 = 4 \<or> n100 = 4 then (year - 1, 12, 31)
         else
           let leapyear = (n1 = 3 \<and> (n4 \<noteq> 24 \<or> n100 = 3));
               month = (n + 50) div 32;
               preceding = DAYS_BEFORE_MONTH ! nat month + (if month > 2 \<and> leapyear then 1 else 0)
           in if preceding > n
              then (year, month - 1,
                    n - (preceding - (DAYS_IN_MONTH ! nat (month - 1)
                           + (if month - 1 = 2 \<and> leapyear then 1 else 0))) + 1)
              else (year, month, n - preceding + 1))"

definition isoformat :: "datetime \<Rightarrow> string" where
  "isoformat t =
     (let (year, month, day) = ord2ymd (t div 86400000000 + 1);
          r = t mod 86400000000;
          us = r mod 1000000
      in dec 4 (nat year) @ ''-'' @ dec 2 (nat month) @ ''-'' @ dec 2 (nat day) @ ''T'' @
         dec 2 (nat (r div 3600000000)) @ '':'' @ dec 2 (nat (r div 60000000 mod 60)) @ '':'' @
         dec 2 (nat (r div 1000000 mod 60)) @
         (if us = 0 then [] else ''.'' @ dec 6 (nat us)))"

section \<open>ScreeningTime and Film\<close>

record ScreeningTime =
  start :: datetime
  hall :: int

text \<open>The constructor reads the clock; the reading is the parameter \<open>now\<close>.\<close>

definition ScreeningTime_init :: "datetime \<Rightarrow> datetime \<Rightarrow> int \<Rightarrow> error + ScreeningTime" where
  "ScreeningTime_init now st h =
     (if st \<le> now then Inl (ValidationError ''Screening time must be in the future'')
      else if h \<le> 0 then Inl (ValidationError ''Hall number must be positive'')
      else Inr \<lparr>start = st, hall = h\<rparr>)"

text \<open>
  Of a \<^verbatim>\<open>CinemaPromotion\<close> the film reads \<^verbatim>\<open>expires_at\<close> only; its discount and its
  conditions are kept out of the record.
\<close>

record CinemaPromotion =
  promo_name :: string
  expires_at :: datetime

record Film =
  title :: string
  duration :: int
  rating :: string
  screenings :: "ScreeningTime list"
  promotions :: "(ScreeningTime \<times> CinemaPromotion) list"

definition MAX_DURATION :: int where "MAX_DURATION = 960"
definition MIN_DURATION :: int where "MIN_DURATION = 1"

definition Film_init ::
  "string \<Rightarrow> int \<Rightarrow> string \<Rightarrow> ScreeningTime list \<Rightarrow> (ScreeningTime \<times> CinemaPromotion) list
     \<Rightarrow> error + Film" where
  "Film_init t d r ss ps =
     (if t = [] then Inl (ValidationError ''Title cannot be empty'')
      else if d \<le> 0 then Inl (ValidationError ''Duration must be a positive integer'')
      else if r = [] then Inl (ValidationError ''Rating cannot be empty'')
      else if r \<notin> set [''G'', ''PG'', ''PG-13'', ''R'', ''NC-17'']
        then Inl (ValidationError ''Invalid rating'')
      else if d < MIN_DURATION \<or> d > MAX_DURATION
        then Inl (ValidationError ''duration must be between {MIN_DURATION} and {MAX_DURATION} minutes'')
      else Inr \<lparr>title = t, duration = d, rating = r, screenings = ss, promotions = ps\<rparr>)"

text \<open>
  The loop of \<^verbatim>\<open>add_screening\<close> over the existing screenings: the exception it raises, if
  any. Both ends are computed, in the source's order, before the three-way test.
\<close>

fun conflict_loop :: "int \<Rightarrow> ScreeningTime \<Rightarrow> ScreeningTime list \<Rightarrow> error option" where
  "conflict_loop d screening [] = None"
| "conflict_loop d screening (existing # rest) =
     (if hall existing = hall screening then
        (case datetime_add (start existing) (timedelta_minutes d) of
           Inl e \<Rightarrow> Some e
         | Inr existing_end \<Rightarrow>
            (case datetime_add (start screening) (timedelta_minutes d) of
               Inl e \<Rightarrow> Some e
             | Inr screening_end \<Rightarrow>
                if (start existing \<le> start screening \<and> start screening < existing_end) \<or>
                   (start existing < screening_end \<and> screening_end \<le> existing_end) \<or>
                   (start screening \<le> start existing \<and> screening_end \<ge> existing_end)
                then Some (ScheduleConflictError
                       ''Screening conflicts with existing screening in hall {existing.hall}'')
                else conflict_loop d screening rest))
      else conflict_loop d screening rest)"

text \<open>\<^verbatim>\<open>list.sort(key=...)\<close> is a stable sort, as \<^const>\<open>sort_key\<close> is.\<close>

definition Film_add_screening :: "Film \<Rightarrow> ScreeningTime \<Rightarrow> Film effect" where
  "Film_add_screening self screening =
     (if screening \<in> set (screenings self)
        then (Some (ValidationError ''Screening already exists''), self)
      else (case conflict_loop (duration self) screening (screenings self) of
              Some e \<Rightarrow> (Some e, self)
            | None \<Rightarrow>
                (None, self\<lparr>screenings := sort_key start (screenings self @ [screening])\<rparr>)))"

definition Film_remove_screening :: "Film \<Rightarrow> ScreeningTime \<Rightarrow> Film effect" where
  "Film_remove_screening self screening =
     (if screening \<notin> set (screenings self)
        then (Some (ValidationError ''Screening does not exist''), self)
      else (None, self\<lparr>screenings := remove1 screening (screenings self)\<rparr>))"

text \<open>
  The promotion dictionary is an association list in insertion order: \<^const>\<open>map_of\<close> looks
  a key up, \<^const>\<open>AList.update\<close> assigns, \<^const>\<open>AList.delete\<close> deletes.
\<close>

definition Film_apply_promotion ::
  "datetime \<Rightarrow> Film \<Rightarrow> ScreeningTime \<Rightarrow> CinemaPromotion \<Rightarrow> Film effect" where
  "Film_apply_promotion now self screening promotion =
     (if screening \<notin> set (screenings self) then (Some (ValueError ''Screening not found''), self)
      else if map_of (promotions self) screening \<noteq> None
        then (Some (ValueError ''Screening already has a promotion''), self)
      else if expires_at promotion < now then (Some (ValueError ''Promotion has expired''), self)
      else (None, self\<lparr>promotions := AList.update screening promotion (promotions self)\<rparr>))"

definition Film_remove_promotion :: "Film \<Rightarrow> ScreeningTime \<Rightarrow> Film effect" where
  "Film_remove_promotion self screening =
     (if screening \<notin> set (screenings self) then (Some (ValueError ''Screening not found''), self)
      else if map_of (promotions self) screening = None
        then (Some (ValueError ''Screening has no promotion''), self)
      else (None, self\<lparr>promotions := AList.delete screening (promotions self)\<rparr>))"

definition Film_get_promotion :: "Film \<Rightarrow> ScreeningTime \<Rightarrow> error + CinemaPromotion option" where
  "Film_get_promotion self screening =
     (if screening \<notin> set (screenings self) then Inl (ValueError ''Screening not found'')
      else Inr (map_of (promotions self) screening))"

definition Film_upcoming_screenings :: "Film \<Rightarrow> datetime \<Rightarrow> ScreeningTime list" where
  "Film_upcoming_screenings self now = filter (\<lambda>s. start s > now) (screenings self)"

text \<open>
  A caller making the calls \<^verbatim>\<open>add_screening(s)\<close> for the elements of a list in turn,
  going on after a call that raised.
\<close>

fun add_screenings :: "Film \<Rightarrow> ScreeningTime list \<Rightarrow> Film" where
  "add_screenings f [] = f"
| "add_screenings f (s # ss) = add_screenings (snd (Film_add_screening f s)) ss"

section \<open>Cinema: halls and the reservation ledger\<close>

text \<open>
  The two dictionaries are association lists in insertion order, read with \<^const>\<open>map_of\<close>
  and written with \<^const>\<open>AList.update\<close> (an existing key keeps its place, a new one goes
  to the end) and \<^const>\<open>AList.delete\<close>. A hall is held by value; a ledger key is the hall
  number with the ISO text of the start. The older path \<^verbatim>\<open>reserve_seats\<close>, which adjusts
  the counter of a Hall object handed in by the caller and takes no part in the ledger, is
  left out.
\<close>

record Cinema =
  name :: string
  halls :: "(int \<times> Hall) list"
  reservations :: "((int \<times> string) \<times> int) list"

definition dict_get :: "('k \<times> 'v) list \<Rightarrow> 'k \<Rightarrow> 'v \<Rightarrow> 'v" where
  "dict_get d k dflt = (case map_of d k of None \<Rightarrow> dflt | Some v \<Rightarrow> v)"

definition Cinema_init :: "string \<Rightarrow> Hall list \<Rightarrow> Cinema" where
  "Cinema_init nm hs =
     \<lparr>name = nm, halls = fold (\<lambda>h d. AList.update (number h) h d) hs [], reservations = []\<rparr>"

definition Cinema_add_screening :: "Cinema \<Rightarrow> Film \<Rightarrow> ScreeningTime \<Rightarrow> Film effect" where
  "Cinema_add_screening self film screening =
     (if map_of (halls self) (hall screening) = None
        then (Some (ValidationError ''Hall {screening.hall} does not exist''), film)
      else Film_add_screening film screening)"

definition Cinema_add_hall :: "Cinema \<Rightarrow> Hall \<Rightarrow> bool \<Rightarrow> Cinema effect" where
  "Cinema_add_hall self h overwrite =
     (if \<not> overwrite \<and> map_of (halls self) (number h) \<noteq> None
        then (Some (ValidationError ''Hall #{hall.number} already exists.''), self)
      else (None, self\<lparr>halls := AList.update (number h) h (halls self)\<rparr>))"

definition Cinema_remove_hall :: "Cinema \<Rightarrow> Hall \<Rightarrow> Cinema effect" where
  "Cinema_remove_hall self h =
     (if map_of (halls self) (number h) = None
        then (Some (ValidationError ''Hall {hall.number} does not exist''), self)
      else (None, self\<lparr>halls := AList.delete (number h) (halls self)\<rparr>))"

definition Cinema_hall :: "Cinema \<Rightarrow> int \<Rightarrow> error + Hall" where
  "Cinema_hall self num = (case map_of (halls self) num of None \<Rightarrow> Inl KeyError | Some h \<Rightarrow> Inr h)"

definition ledger_key :: "ScreeningTime \<Rightarrow> int \<times> string" where
  "ledger_key screening = (hall screening, isoformat (start screening))"

definition validate_reservation_request ::
  "Cinema \<Rightarrow> Film \<Rightarrow> ScreeningTime \<Rightarrow> int \<Rightarrow> error option" where
  "validate_reservation_request self film screening seats =
     (if seats \<le> 0 then Some (ValidationError ''Number of seats must be positive'')
      else if screening \<notin> set (screenings film)
        then Some (ReservationError ''Screening does not belong to the given film.'')
      else (case map_of (halls self) (hall screening) of
              None \<Rightarrow> Some (ReservationError ''Hall #{screening.hall} not registered in cinema.'')
            | Some h \<Rightarrow>
                let already_reserved = dict_get (reservations self) (ledger_key screening) 0;
                    available = capacity h - already_reserved
                in if seats > available
                   then Some (ReservationError
                     ''Requested {seats} seats, but only {available} left in hall {hall.number}.'')
                   else None))"

definition Cinema_reserve ::
  "Cinema \<Rightarrow> Film \<Rightarrow> ScreeningTime \<Rightarrow> int \<Rightarrow> bool \<Rightarrow> Cinema effect" where
  "Cinema_reserve self film screening seats commit =
     (case validate_reservation_request self film screening seats of
        Some e \<Rightarrow> (Some e, self)
      | None \<Rightarrow>
          if commit then
            let key = ledger_key screening;
                already_reserved = dict_get (reservations self) key 0
            in (None, self\<lparr>reservations :=
                  AList.update key (already_reserved + seats) (reservations self)\<rparr>)
          else (None, self))"

definition validate_cancellation_request ::
  "Cinema \<Rightarrow> Film \<Rightarrow> ScreeningTime \<Rightarrow> int \<Rightarrow> error option" where
  "validate_cancellation_request self film screening seats =
     (if seats \<le> 0 then Some (ValidationError ''Number of seats must be positive'')
      else if screening \<notin> set (screenings film)
        then Some (ReservationError ''Screening does not belong to the given film.'')
      else (case map_of (halls self) (hall screening) of
              None \<Rightarrow> Some (ReservationError ''Hall #{screening.hall} not registered in cinema.'')
            | Some h \<Rightarrow>
                let already_reserved = dict_get (reservations self) (ledger_key screening) 0
                in if seats > already_reserved
                   then Some (ReservationError
                     ''Requested to cancel {seats} seats, but only {already_reserved} reserved in hall {hall.number}.'')
                   else None))"

definition Cinema_cancel_reservation ::
  "Cinema \<Rightarrow> Film \<Rightarrow> ScreeningTime \<Rightarrow> int \<Rightarrow> Cinema effect" where
  "Cinema_cancel_reservation self film screening seats =
     (case validate_cancellation_request self film screening seats of
        Some e \<Rightarrow> (Some e, self)
      | None \<Rightarrow>
          let key = ledger_key screening;
              already_reserved = dict_get (reservations self) key 0
          in (None, self\<lparr>reservations :=
                AList.update key (already_reserved - seats) (reservations self)\<rparr>))"

definition Cinema_available_seats :: "Cinema \<Rightarrow> ScreeningTime \<Rightarrow> error + int" where
  "Cinema_available_seats self screening =
     (case map_of (halls self) (hall screening) of
        None \<Rightarrow> Inl KeyError
      | Some h \<Rightarrow> Inr (capacity h - dict_get (reservations self) (ledger_key screening) 0))"

section \<open>Persistence\<close>

text \<open>
  A JSON document as \<^verbatim>\<open>json.loads\<close> returns it: \<^verbatim>\<open>None\<close>, a bool, an int, a str, a list
  or a dict with string keys, each key once, in the order of the text. Numbers with a
  fraction or an exponent, which become floats, are outside the model.
\<close>

datatype json =
    JNull
  | JBool bool
  | JInt int
  | JStr string
  | JArr "json list"
  | JObj "(string \<times> json) list"

text \<open>
  What reading the file at a path and parsing its text give. The operating system refuses
  the read (\<open>Unreadable\<close>, an OSError); the bytes are no text or the text is no JSON
  document (\<open>Not_JSON\<close>, a UnicodeDecodeError or a JSONDecodeError); the text nests lists
  and objects deeper than the interpreter's recursion limit allows (\<open>Too_deep\<close>:
  \<^verbatim>\<open>json.loads\<close> raises RecursionError); the text holds an integer of more digits than
  the interpreter's limit for the conversion of integers (\<open>Int_too_long\<close>:
  \<^verbatim>\<open>json.loads\<close> raises ValueError); or \<^verbatim>\<open>json.loads\<close> returns the document the text
  denotes (\<open>Document\<close>). Which of them happens for a given text is the interpreter's
  matter and is not computed here.
\<close>

datatype file_state = Unreadable | Not_JSON | Too_deep | Int_too_long | Document json

definition hall_json :: "Hall \<Rightarrow> json" where
  "hall_json h = JObj [(''number'', JInt (number h)), (''capacity'', JInt (capacity h)),
                       (''available_seats'', JInt (available_seats h))]"

definition reservation_json :: "(int \<times> string) \<times> int \<Rightarrow> json" where
  "reservation_json = (\<lambda>((hall, start_iso), seats).
     JObj [(''hall'', JInt hall), (''screening_start'', JStr start_iso), (''reserved'', JInt seats)])"

text \<open>The dictionary that \<^verbatim>\<open>save\<close> builds; the clock's ISO text is the parameter.\<close>

definition Cinema_payload :: "Cinema \<Rightarrow> string \<Rightarrow> json" where
  "Cinema_payload self timestamp =
     JObj [(''meta'', JObj [(''name'', JStr (name self)), (''timestamp'', JStr timestamp)]),
           (''halls'', JArr (map hall_json (map snd (halls self)))),
           (''reservations'', JArr (map reservation_json (reservations self)))]"

text \<open>
  What becomes of the write: it completes; \<^verbatim>\<open>json.dumps\<close> raises ValueError on an integer
  over the same digit limit, which \<^verbatim>\<open>save\<close> does not catch, before the file is touched;
  the operating system refuses the write before the file is touched; or the write fails
  after the file was truncated, leaving text that is no JSON document. \<^verbatim>\<open>save\<close> is a
  function of the file at the path.
\<close>

datatype write_outcome = Written | Unserialisable | Refused | Torn

definition Cinema_save :: "Cinema \<Rightarrow> string \<Rightarrow> write_outcome \<Rightarrow> file_state \<Rightarrow> file_state effect" where
  "Cinema_save self timestamp w old =
     (case w of
        Written \<Rightarrow> (None, Document (Cinema_payload self timestamp))
      | Unserialisable \<Rightarrow>
          (Some (ValueError ''Exceeds the limit for integer string conversion''), old)
      | Refused \<Rightarrow> (Some (IOError ''Unable to write cinema data to {file_path}''), old)
      | Torn \<Rightarrow> (Some (IOError ''Unable to write cinema data to {file_path}''), Not_JSON))"

text \<open>
  The operations \<^verbatim>\<open>load\<close> applies to the values of the document, with the exceptions
  they raise: subscription by a string, iteration, comparison with zero, hashing, and the
  \<^verbatim>\<open>get\<close> of a dictionary.
\<close>

fun subscript :: "json \<Rightarrow> string \<Rightarrow> error + json" where
  "subscript (JObj kvs) k = (case map_of kvs k of None \<Rightarrow> Inl KeyError | Some v \<Rightarrow> Inr v)"
| "subscript v k = Inl TypeError"

fun iterate :: "json \<Rightarrow> error + json list" where
  "iterate (JArr xs) = Inr xs"
| "iterate (JObj kvs) = Inr (map (\<lambda>(k, v). JStr k) kvs)"
| "iterate (JStr s) = Inr (map (\<lambda>c. JStr [c]) s)"
| "iterate v = Inl TypeError"

fun le_zero :: "json \<Rightarrow> error + bool" where
  "le_zero (JInt n) = Inr (n \<le> 0)"
| "le_zero (JBool b) = Inr (\<not> b)"
| "le_zero v = Inl TypeError"

fun hashable :: "json \<Rightarrow> bool" where
  "hashable (JArr xs) = False"
| "hashable (JObj kvs) = False"
| "hashable v = True"

fun get_or :: "json \<Rightarrow> string \<Rightarrow> json \<Rightarrow> error + json" where
  "get_or (JObj kvs) k dflt = Inr (case map_of kvs k of None \<Rightarrow> dflt | Some v \<Rightarrow> v)"
| "get_or v k dflt = Inl AttributeError"

text \<open>
  \<^verbatim>\<open>load\<close> puts into a hall and into the ledger whatever values the document holds, so
  its halls are triples of values: number, capacity and available seats.
\<close>

type_synonym dyn_hall = "json \<times> json \<times> json"

definition Hall_init_dyn :: "json \<Rightarrow> json \<Rightarrow> error + dyn_hall" where
  "Hall_init_dyn num cap =
     (case le_zero cap of
        Inl e \<Rightarrow> Inl e
      | Inr nonpositive \<Rightarrow>
          if nonpositive then Inl (ValidationError ''Capacity must be positive'')
          else Inr (num, cap, cap))"

fun load_halls :: "json list \<Rightarrow> error + dyn_hall list" where
  "load_halls [] = Inr []"
| "load_halls (h_dict # rest) =
     (case subscript h_dict ''number'' of Inl e \<Rightarrow> Inl e | Inr num \<Rightarrow>
      (case subscript h_dict ''capacity'' of Inl e \<Rightarrow> Inl e | Inr cap \<Rightarrow>
       (case Hall_init_dyn num cap of Inl e \<Rightarrow> Inl e | Inr (n, c, a) \<Rightarrow>
        (case subscript h_dict ''available_seats'' of Inl e \<Rightarrow> Inl e | Inr av \<Rightarrow>
         (case load_halls rest of Inl e \<Rightarrow> Inl e | Inr hs \<Rightarrow> Inr ((n, c, av) # hs))))))"

type_synonym dyn_reservation = "(json \<times> json) \<times> json"

fun load_reservations :: "json list \<Rightarrow> error + dyn_reservation list" where
  "load_reservations [] = Inr []"
| "load_reservations (rec # rest) =
     (case subscript rec ''hall'' of Inl e \<Rightarrow> Inl e | Inr h \<Rightarrow>
      (case subscript rec ''screening_start'' of Inl e \<Rightarrow> Inl e | Inr st \<Rightarrow>
       (case subscript rec ''reserved'' of Inl e \<Rightarrow> Inl e | Inr r \<Rightarrow>
        if \<not> (hashable h \<and> hashable st) then Inl TypeError
        else (case load_reservations rest of Inl e \<Rightarrow> Inl e
              | Inr rs \<Rightarrow> Inr (((h, st), r) # rs)))))"

text \<open>
  The body of the \<^verbatim>\<open>try\<close>: the name, the halls in the order of the document and the
  ledger assignments in the order they are made.
\<close>

fun load_body :: "file_state \<Rightarrow> error + json \<times> dyn_hall list \<times> dyn_reservation list" where
  "load_body Unreadable = Inl OSError"
| "load_body Not_JSON = Inl JSONDecodeError"
| "load_body Too_deep = Inl RecursionError"
| "load_body Int_too_long = Inl (ValueError ''Exceeds the limit for integer string conversion'')"
| "load_body (Document data) =
     (case subscript data ''halls'' of Inl e \<Rightarrow> Inl e | Inr hs_json \<Rightarrow>
      (case iterate hs_json of Inl e \<Rightarrow> Inl e | Inr h_dicts \<Rightarrow>
       (case load_halls h_dicts of Inl e \<Rightarrow> Inl e | Inr hs \<Rightarrow>
        (case subscript data ''meta'' of Inl e \<Rightarrow> Inl e | Inr meta \<Rightarrow>
         (case subscript meta ''name'' of Inl e \<Rightarrow> Inl e | Inr nm \<Rightarrow>
          if \<not> list_all (\<lambda>(n, c, a). hashable n) hs then Inl TypeError
          else
          (case get_or data ''reservations'' (JArr []) of Inl e \<Rightarrow> Inl e | Inr rs_json \<Rightarrow>
           (case iterate rs_json of Inl e \<Rightarrow> Inl e | Inr recs \<Rightarrow>
            (case load_reservations recs of Inl e \<Rightarrow> Inl e
             | Inr rs \<Rightarrow> Inr (nm, hs, rs)))))))))"

text \<open>
  The loaded object as a \<^typ>\<open>Cinema\<close>, when the name is a str, every hall field and
  reserved count an int and every start a str; \<open>None\<close> when some value is of another type.
\<close>

fun typed_hall :: "dyn_hall \<Rightarrow> Hall option" where
  "typed_hall (JInt n, JInt c, JInt a) = Some \<lparr>number = n, capacity = c, available_seats = a\<rparr>"
| "typed_hall v = None"

fun typed_reservation :: "dyn_reservation \<Rightarrow> ((int \<times> string) \<times> int) option" where
  "typed_reservation ((JInt h, JStr st), JInt r) = Some ((h, st), r)"
| "typed_reservation v = None"

fun typed_cinema :: "json \<times> dyn_hall list \<times> dyn_reservation list \<Rightarrow> Cinema option" where
  "typed_cinema (JStr nm, hs, rs) =
     (case those (map typed_hall hs) of
        None \<Rightarrow> None
      | Some ths \<Rightarrow>
         (case those (map typed_reservation rs) of
            None \<Rightarrow> None
          | Some trs \<Rightarrow>
              Some ((Cinema_init nm ths)
                      \<lparr>reservations := fold (\<lambda>(key, r) d. AList.update key r d) trs []\<rparr>)))"
| "typed_cinema v = None"

text \<open>The exception classes of the \<^verbatim>\<open>except\<close> clause of \<^verbatim>\<open>load\<close>.\<close>

fun caught :: "error \<Rightarrow> bool" where
  "caught OSError = True"
| "caught JSONDecodeError = True"
| "caught KeyError = True"
| "caught TypeError = True"
| "caught (ValueError m) = True"
| "caught e = False"

definition Cinema_load :: "file_state \<Rightarrow> error + Cinema option" where
  "Cinema_load f =
     (case load_body f of
        Inl e \<Rightarrow> if caught e then Inl (IOError ''Unable to load cinema data from {file_path}'')
                 else Inl e
      | Inr loaded \<Rightarrow> Inr (typed_cinema loaded))"

section \<open>Sequences of operations on a cinema and its files\<close>

record world =
  cinema :: Cinema
  files :: "string \<Rightarrow> file_state"

datatype op =
    Add_hall Hall bool
  | Remove_hall Hall
  | Reserve Film ScreeningTime int bool
  | Cancel_reservation Film ScreeningTime int
  | Save string string write_outcome
  | Load string

text \<open>
  One call of a caller that goes on after an exception, with the cinema as the call left
  it. \<^verbatim>\<open>load\<close> builds a new cinema, which replaces the one in use when the call
  returns one of the typed model; the files are empty at the start and written by
  \<^verbatim>\<open>save\<close> only.
\<close>

fun step :: "world \<Rightarrow> op \<Rightarrow> world" where
  "step w (Add_hall h overwrite) = w\<lparr>cinema := snd (Cinema_add_hall (cinema w) h overwrite)\<rparr>"
| "step w (Remove_hall h) = w\<lparr>cinema := snd (Cinema_remove_hall (cinema w) h)\<rparr>"
| "step w (Reserve film screening seats commit) =
     w\<lparr>cinema := snd (Cinema_reserve (cinema w) film screening seats commit)\<rparr>"
| "step w (Cancel_reservation film screening seats) =
     w\<lparr>cinema := snd (Cinema_cancel_reservation (cinema w) film screening seats)\<rparr>"
| "step w (Save path timestamp wr) =
     w\<lparr>files := (files w)(path := snd (Cinema_save (cinema w) timestamp wr (files w path)))\<rparr>"
| "step w (Load path) =
     (case Cinema_load (files w path) of Inr (Some c) \<Rightarrow> w\<lparr>cinema := c\<rparr> | _ \<Rightarrow> w)"

fun run :: "world \<Rightarrow> op list \<Rightarrow> world" where
  "run w [] = w"
| "run w (x # xs) = run (step w x) xs"

definition new_world :: "string \<Rightarrow> Hall list \<Rightarrow> world" where
  "new_world nm hs = \<lparr>cinema = Cinema_init nm hs, files = (\<lambda>path. Unreadable)\<rparr>"

section \<open>Predicates and example values used in the statements\<close>

text \<open>The end of a screening, \<open>duration\<close> minutes after its start, is a datetime.\<close>

definition end_representable :: "int \<Rightarrow> ScreeningTime \<Rightarrow> bool" where
  "end_representable d s \<longleftrightarrow> valid_datetime (start s + timedelta_minutes d)"

text \<open>
  The ledger invariant: no entry holds a negative count, and none holds more than the
  capacity of the hall its key names, when the cinema holds a hall of that number.
\<close>

definition ledger_ok :: "Cinema \<Rightarrow> bool" where
  "ledger_ok c \<longleftrightarrow>
     list_all (\<lambda>((k, t), r). 0 \<le> r \<and>
                  (case map_of (halls c) k of None \<Rightarrow> True | Some h \<Rightarrow> r \<le> capacity h))
       (reservations c)"

text \<open>
  What construction and \<^verbatim>\<open>add_hall\<close> give every cinema: a hall is stored under its own
  number and has the positive capacity its constructor demands; keys are not repeated.
\<close>

definition cinema_inv :: "Cinema \<Rightarrow> bool" where
  "cinema_inv c \<longleftrightarrow>
     distinct (map fst (halls c)) \<and> distinct (map fst (reservations c)) \<and>
     list_all (\<lambda>(k, h). number h = k \<and> 0 < capacity h) (halls c)"

text \<open>
  A cinema whose halls are stored under their own numbers, with no key repeated in either
  dictionary; the capacities are left open.
\<close>

definition cinema_keys :: "Cinema \<Rightarrow> bool" where
  "cinema_keys c \<longleftrightarrow>
     distinct (map fst (halls c)) \<and> distinct (map fst (reservations c)) \<and>
     list_all (\<lambda>(k, h). number h = k) (halls c)"

text \<open>
  The calls that keep the ledger invariant: every call but an \<^verbatim>\<open>add_hall\<close> that installs
  its hall, because \<open>overwrite\<close> is set or the number is free, although the capacity of
  the hall is below a count reserved under its number.
\<close>

fun op_ok :: "Cinema \<Rightarrow> op \<Rightarrow> bool" where
  "op_ok c (Add_hall h overwrite) \<longleftrightarrow>
     (overwrite \<or> map_of (halls c) (number h) = None \<longrightarrow>
        list_all (\<lambda>((k, t), r). k = number h \<longrightarrow> r \<le> capacity h) (reservations c))"
| "op_ok c x \<longleftrightarrow> True"

fun run_ok :: "world \<Rightarrow> op list \<Rightarrow> bool" where
  "run_ok w [] \<longleftrightarrow> True"
| "run_ok w (x # xs) \<longleftrightarrow> op_ok (cinema w) x \<and> run_ok (step w x) xs"

text \<open>The values \<^verbatim>\<open>load\<close> reads back from what \<^verbatim>\<open>save\<close> wrote for a hall and a ledger entry.\<close>

definition dyn_of_hall :: "Hall \<Rightarrow> dyn_hall" where
  "dyn_of_hall h = (JInt (number h), JInt (capacity h), JInt (available_seats h))"

definition dyn_of_reservation :: "(int \<times> string) \<times> int \<Rightarrow> dyn_reservation" where
  "dyn_of_reservation = (\<lambda>((h, st), r). ((JInt h, JStr st), JInt r))"

text \<open>
  The invariant of a cinema with its files: every document on disk is the payload of a
  cinema that satisfied both conditions when it was saved.
\<close>

definition world_inv :: "world \<Rightarrow> bool" where
  "world_inv w \<longleftrightarrow>
     cinema_keys (cinema w) \<and> ledger_ok (cinema w) \<and>
     (\<forall>path d. files w path = Document d \<longrightarrow>
        (\<exists>c ts. d = Cinema_payload c ts \<and> cinema_keys c \<and> ledger_ok c))"

text \<open>
  The files of a world whose cinemas all had halls of positive capacity, and the calls
  whose hall argument is a Hall the constructor could have built.
\<close>

definition files_ok :: "world \<Rightarrow> bool" where
  "files_ok w \<longleftrightarrow>
     (\<forall>path d. files w path = Document d \<longrightarrow> (\<exists>c ts. d = Cinema_payload c ts \<and> cinema_inv c))"

fun hall_arg_ok :: "op \<Rightarrow> bool" where
  "hall_arg_ok (Add_hall h overwrite) \<longleftrightarrow> 0 < capacity h"
| "hall_arg_ok x \<longleftrightarrow> True"

abbreviation conflict_msg :: string where
  "conflict_msg \<equiv> ''Screening conflicts with existing screening in hall {existing.hall}''"
abbreviation seats_msg :: string where
  "seats_msg \<equiv> ''Number of seats must be positive''"
abbreviation not_in_film_msg :: string where
  "not_in_film_msg \<equiv> ''Screening does not belong to the given film.''"
abbreviation not_registered_msg :: string where
  "not_registered_msg \<equiv> ''Hall #{screening.hall} not registered in cinema.''"
abbreviation only_left_msg :: string where
  "only_left_msg \<equiv> ''Requested {seats} seats, but only {available} left in hall {hall.number}.''"
abbreviation only_reserved_msg :: string where
  "only_reserved_msg \<equiv>
     ''Requested to cancel {seats} seats, but only {already_reserved} reserved in hall {hall.number}.''"

text \<open>
  The values of the repository's tests: the instant 2026-11-04T18:00:00, a film of 120
  minutes, hall 1 with 100 seats and a cinema holding it.
\<close>

abbreviation T0 :: datetime where
  "T0 \<equiv> 63929412000000000"
abbreviation s0 :: ScreeningTime where
  "s0 \<equiv> \<lparr>start = T0, hall = 1\<rparr>"
abbreviation key0 :: "int \<times> string" where
  "key0 \<equiv> (1, ''2026-11-04T18:00:00'')"
abbreviation half_price :: CinemaPromotion where
  "half_price \<equiv> \<lparr>promo_name = ''Half price'', expires_at = T0\<rparr>"
abbreviation promo_film :: "ScreeningTime list \<Rightarrow> (ScreeningTime \<times> CinemaPromotion) list \<Rightarrow> Film" where
  "promo_film ss ps \<equiv>
     \<lparr>title = ''Test Film'', duration = 120, rating = ''PG-13'', screenings = ss, promotions = ps\<rparr>"
abbreviation test_film :: "ScreeningTime list \<Rightarrow> Film" where
  "test_film ss \<equiv> promo_film ss []"
abbreviation hall_100 :: Hall where
  "hall_100 \<equiv> \<lparr>number = 1, capacity = 100, available_seats = 100\<rparr>"
abbreviation test_cinema :: "((int \<times> string) \<times> int) list \<Rightarrow> Cinema" where
  "test_cinema rs \<equiv> \<lparr>name = ''Test Cinema'', halls = [(1, hall_100)], reservations = rs\<rparr>"

abbreviation load_msg :: string where
  "load_msg \<equiv> ''Unable to load cinema data from {file_path}''"
abbreviation capacity_msg :: string where
  "capacity_msg \<equiv> ''Capacity must be positive''"
abbreviation hall_10 :: Hall where
  "hall_10 \<equiv> \<lparr>number = 1, capacity = 10, available_seats = 10\<rparr>"
abbreviation hall_50_of_100 :: Hall where
  "hall_50_of_100 \<equiv> \<lparr>number = 1, capacity = 100, available_seats = 50\<rparr>"

abbreviation hall_20 :: Hall where
  "hall_20 \<equiv> \<lparr>number = 1, capacity = 20, available_seats = 20\<rparr>"
abbreviation hall_25 :: Hall where
  "hall_25 \<equiv> \<lparr>number = 1, capacity = 25, available_seats = 25\<rparr>"
abbreviation guarded_run :: "op list" where
  "guarded_run \<equiv>
     [Reserve (test_film [s0]) s0 50 True,
      Add_hall hall_10 False,
      Cancel_reservation (test_film [s0]) s0 30,
      Save ''cinema.json'' ''2026-11-03T12:00:00+00:00'' Written,
      Reserve (test_film [s0]) s0 80 True,
      Load ''cinema.json'',
      Add_hall hall_20 True,
      Remove_hall hall_20,
      Add_hall hall_25 False]"

section \<open>Properties of Hall\<close>

lemma Hall_init_inv: "Hall_init num cap = Inr h \<Longrightarrow> hall_inv h \<and> 0 < capacity h"
  by (auto simp: Hall_init_def hall_inv_def split: if_splits)

text \<open>
  Claim C7. \<^verbatim>\<open>Hall.reserve_seats(n)\<close> raises ValidationError when \<open>n \<le> 0\<close>, else
  ReservationError when \<open>n > available_seats\<close>, else takes \<open>n\<close> from \<open>available_seats\<close>;
  \<^verbatim>\<open>Hall.cancel_reservation(n)\<close> raises ValidationError when \<open>n \<le> 0\<close>, else
  ReservationError when \<open>n > capacity - available_seats\<close>, else adds \<open>n\<close> to
  \<open>available_seats\<close>; a raising call leaves the hall as it was, and both operations keep
  \<open>0 \<le> available_seats \<le> capacity\<close>.
\<close>

theorem Hall_counter_operations:
  "(n \<le> 0 \<longrightarrow>
      Hall_reserve_seats h n = (Some (ValidationError ''Number of seats must be positive''), h) \<and>
      Hall_cancel_reservation h n = (Some (ValidationError ''Number of seats must be positive''), h)) \<and>
   (0 < n \<and> n > available_seats h \<longrightarrow>
      Hall_reserve_seats h n = (Some (ReservationError ''Not enough seats available''), h)) \<and>
   (0 < n \<and> n \<le> available_seats h \<longrightarrow>
      Hall_reserve_seats h n = (None, h\<lparr>available_seats := available_seats h - n\<rparr>)) \<and>
   (0 < n \<and> n > capacity h - available_seats h \<longrightarrow>
      Hall_cancel_reservation h n = (Some (ReservationError ''Not enough seats to cancel''), h)) \<and>
   (0 < n \<and> n \<le> capacity h - available_seats h \<longrightarrow>
      Hall_cancel_reservation h n = (None, h\<lparr>available_seats := available_seats h + n\<rparr>)) \<and>
   (hall_inv h \<longrightarrow>
      hall_inv (snd (Hall_reserve_seats h n)) \<and> hall_inv (snd (Hall_cancel_reservation h n)))"
  by (simp add: Hall_reserve_seats_def Hall_cancel_reservation_def hall_inv_def)

theorem Hall_counter_operations_witness:
  "hall_inv hall_50_of_100 \<and>
   Hall_reserve_seats hall_50_of_100 0
     = (Some (ValidationError ''Number of seats must be positive''), hall_50_of_100) \<and>
   Hall_cancel_reservation hall_50_of_100 0
     = (Some (ValidationError ''Number of seats must be positive''), hall_50_of_100) \<and>
   Hall_reserve_seats hall_50_of_100 70
     = (Some (ReservationError ''Not enough seats available''), hall_50_of_100) \<and>
   Hall_cancel_reservation hall_50_of_100 70
     = (Some (ReservationError ''Not enough seats to cancel''), hall_50_of_100) \<and>
   Hall_reserve_seats hall_50_of_100 50
     = (None, \<lparr>number = 1, capacity = 100, available_seats = 0\<rparr>) \<and>
   Hall_cancel_reservation hall_50_of_100 30
     = (None, \<lparr>number = 1, capacity = 100, available_seats = 80\<rparr>) \<and>
   hall_inv (snd (Hall_reserve_seats hall_50_of_100 50)) \<and>
   hall_inv (snd (Hall_cancel_reservation hall_50_of_100 30))"
  using Hall_counter_operations [of 0 hall_50_of_100]
    Hall_counter_operations [of 70 hall_50_of_100]
    Hall_counter_operations [of 50 hall_50_of_100]
    Hall_counter_operations [of 30 hall_50_of_100]
  by (simp add: hall_inv_def)

section \<open>Properties of Film\<close>

lemma Film_init_duration:
  "Film_init t d r ss ps = Inr f \<Longrightarrow> 0 < duration f \<and> duration f \<le> 960 \<and> screenings f = ss"
  by (auto simp: Film_init_def MIN_DURATION_def MAX_DURATION_def split: if_splits)

lemma apply_promotion_attaches:
  "Film_apply_promotion now f s p = (None, f') \<Longrightarrow>
   s \<in> set (screenings f') \<and> map_of (promotions f') s = Some p \<and> screenings f' = screenings f"
  by (auto simp: Film_apply_promotion_def update_conv' split: if_splits)

lemma ivl_inter_iff: "{a..<b} \<inter> {c..<d} \<noteq> {} \<longleftrightarrow> max a c < min b (d::int)"
proof
  assume "{a..<b} \<inter> {c..<d} \<noteq> {}"
  then obtain t where "t \<in> {a..<b}" "t \<in> {c..<d}" by blast
  then show "max a c < min b d" by simp
next
  assume "max a c < min b d"
  then have "max a c \<in> {a..<b} \<inter> {c..<d}" by simp
  then show "{a..<b} \<inter> {c..<d} \<noteq> {}" by blast
qed

lemma conflict_loop_iff:
  assumes "0 < d" "end_representable d s"
    "\<forall>e\<in>set es. hall e = hall s \<longrightarrow> end_representable d e"
  shows "conflict_loop d s es =
     (if \<exists>e\<in>set es. hall e = hall s \<and>
           {start e ..< start e + timedelta_minutes d} \<inter> {start s ..< start s + timedelta_minutes d} \<noteq> {}
      then Some (ScheduleConflictError ''Screening conflicts with existing screening in hall {existing.hall}'')
      else None)"
  using assms
proof (induction es)
  case Nil
  then show ?case by simp
next
  case (Cons e es)
  have pos: "0 < timedelta_minutes d" using Cons.prems(1) by (simp add: timedelta_minutes_def)
  show ?case
  proof (cases "hall e = hall s")
    case False
    then show ?thesis using Cons by simp
  next
    case True
    then have "end_representable d e" using Cons.prems by simp
    then show ?thesis using Cons True pos
      by (auto simp: datetime_add_def end_representable_def ivl_inter_iff)
  qed
qed

lemma sorted_after_add:
  "fst (Film_add_screening f s) = None \<Longrightarrow> sorted (map start (screenings (snd (Film_add_screening f s))))"
  by (auto simp: Film_add_screening_def split: if_splits option.splits)

lemma add_keeps_sorted:
  "sorted (map start (screenings f)) \<Longrightarrow> sorted (map start (screenings (snd (Film_add_screening f s))))"
  by (auto simp: Film_add_screening_def split: if_splits option.splits)

lemma add_screenings_sorted:
  "sorted (map start (screenings f)) \<Longrightarrow> sorted (map start (screenings (add_screenings f ss)))"
  by (induction ss arbitrary: f) (auto simp: add_keeps_sorted)

text \<open>
  Claim C1, as amended. \<^verbatim>\<open>Film.add_screening(s)\<close> raises ValidationError, not
  ScheduleConflictError, when \<open>s\<close> is already among the screenings. For a screening that is
  not yet there, in a film of positive duration, with the ends of \<open>s\<close> and of the
  screenings in its hall inside the datetime range, it raises ScheduleConflictError if and
  only if some screening \<open>e\<close> of the list has the hall of \<open>s\<close> and the half-open intervals
  \<open>[e.start, e.start + duration)\<close> and \<open>[s.start, s.start + duration)\<close> meet, and otherwise it
  appends \<open>s\<close> and sorts. With one screening at \<open>T\<close> and duration 120, the same hall at
  \<open>T + 120\<close> is accepted and at \<open>T + 60\<close> is rejected.
\<close>

theorem add_screening_conflict_iff:
  "(s \<in> set (screenings f) \<longrightarrow>
      Film_add_screening f s = (Some (ValidationError ''Screening already exists''), f)) \<and>
   (s \<notin> set (screenings f) \<and> 0 < duration f \<and> end_representable (duration f) s \<and>
    (\<forall>e\<in>set (screenings f). hall e = hall s \<longrightarrow> end_representable (duration f) e) \<longrightarrow>
      (fst (Film_add_screening f s) = Some (ScheduleConflictError conflict_msg) \<longleftrightarrow>
         (\<exists>e\<in>set (screenings f). hall e = hall s \<and>
            {start e ..< start e + timedelta_minutes (duration f)} \<inter>
            {start s ..< start s + timedelta_minutes (duration f)} \<noteq> {})) \<and>
      (fst (Film_add_screening f s) \<noteq> Some (ScheduleConflictError conflict_msg) \<longrightarrow>
         Film_add_screening f s = (None, f\<lparr>screenings := sort_key start (screenings f @ [s])\<rparr>))) \<and>
   (screenings f = [e] \<and> duration f = 120 \<and> valid_datetime (start e) \<and>
    valid_datetime (start e + timedelta_minutes 240) \<longrightarrow>
      fst (Film_add_screening f \<lparr>start = start e + timedelta_minutes 120, hall = hall e\<rparr>) = None \<and>
      fst (Film_add_screening f \<lparr>start = start e + timedelta_minutes 60, hall = hall e\<rparr>)
        = Some (ScheduleConflictError conflict_msg))"
proof (intro conjI impI)
  assume "s \<in> set (screenings f)"
  then show "Film_add_screening f s = (Some (ValidationError ''Screening already exists''), f)"
    by (simp add: Film_add_screening_def)
next
  assume a: "s \<notin> set (screenings f) \<and> 0 < duration f \<and> end_representable (duration f) s \<and>
    (\<forall>e\<in>set (screenings f). hall e = hall s \<longrightarrow> end_representable (duration f) e)"
  then have loop: "conflict_loop (duration f) s (screenings f) =
     (if \<exists>e\<in>set (screenings f). hall e = hall s \<and>
           {start e ..< start e + timedelta_minutes (duration f)} \<inter>
           {start s ..< start s + timedelta_minutes (duration f)} \<noteq> {}
      then Some (ScheduleConflictError conflict_msg) else None)"
    by (intro conflict_loop_iff) simp_all
  show "fst (Film_add_screening f s) = Some (ScheduleConflictError conflict_msg) \<longleftrightarrow>
         (\<exists>e\<in>set (screenings f). hall e = hall s \<and>
            {start e ..< start e + timedelta_minutes (duration f)} \<inter>
            {start s ..< start s + timedelta_minutes (duration f)} \<noteq> {})"
    using a by (simp add: Film_add_screening_def loop)
  show "fst (Film_add_screening f s) \<noteq> Some (ScheduleConflictError conflict_msg) \<Longrightarrow>
         Film_add_screening f s = (None, f\<lparr>screenings := sort_key start (screenings f @ [s])\<rparr>)"
    using a by (simp add: Film_add_screening_def loop split: if_splits)
next
  assume b: "screenings f = [e] \<and> duration f = 120 \<and> valid_datetime (start e) \<and>
    valid_datetime (start e + timedelta_minutes 240)"
  then have v: "valid_datetime (start e + timedelta_minutes 120)"
    "valid_datetime (start e + timedelta_minutes 60 + timedelta_minutes 120)"
    "valid_datetime (start e + timedelta_minutes 120 + timedelta_minutes 120)"
    by (simp_all add: valid_datetime_def timedelta_minutes_def)
  show "fst (Film_add_screening f \<lparr>start = start e + timedelta_minutes 120, hall = hall e\<rparr>) = None"
    using b v by (cases e) (simp add: Film_add_screening_def datetime_add_def, simp add: timedelta_minutes_def)
  show "fst (Film_add_screening f \<lparr>start = start e + timedelta_minutes 60, hall = hall e\<rparr>)
        = Some (ScheduleConflictError conflict_msg)"
    using b v by (cases e) (simp add: Film_add_screening_def datetime_add_def, simp add: timedelta_minutes_def)
qed

theorem add_screening_conflict_iff_witness:
  "\<lparr>start = T0 + timedelta_minutes 60, hall = 1\<rparr> \<notin> set (screenings (test_film [s0])) \<and>
   0 < duration (test_film [s0]) \<and>
   end_representable 120 \<lparr>start = T0 + timedelta_minutes 60, hall = 1\<rparr> \<and>
   end_representable 120 s0 \<and>
   valid_datetime T0 \<and> valid_datetime (T0 + timedelta_minutes 240) \<and>
   {T0 ..< T0 + timedelta_minutes 120} \<inter>
     {T0 + timedelta_minutes 60 ..< T0 + timedelta_minutes 60 + timedelta_minutes 120} \<noteq> {} \<and>
   fst (Film_add_screening (test_film [s0]) \<lparr>start = T0 + timedelta_minutes 60, hall = 1\<rparr>)
     = Some (ScheduleConflictError conflict_msg) \<and>
   fst (Film_add_screening (test_film [s0]) \<lparr>start = T0 + timedelta_minutes 120, hall = 1\<rparr>)
     = None \<and>
   Film_add_screening (test_film [s0]) s0
     = (Some (ValidationError ''Screening already exists''), test_film [s0])"
  using add_screening_conflict_iff [of "\<lparr>start = T0 + timedelta_minutes 60, hall = 1\<rparr>"
      "test_film [s0]" "s0"]
    add_screening_conflict_iff [of "s0"
      "test_film [s0]" "s0"]
  by (simp add: end_representable_def valid_datetime_def timedelta_minutes_def datetime_end_def
      ivl_inter_iff)

theorem add_screening_duplicate_counterexample:
  "s0 \<in> set (screenings (test_film [s0])) \<and>
   hall s0 = hall s0 \<and>
   {T0 ..< T0 + timedelta_minutes 120} \<inter> {T0 ..< T0 + timedelta_minutes 120} \<noteq> {} \<and>
   fst (Film_add_screening (test_film [s0]) s0)
     \<noteq> Some (ScheduleConflictError conflict_msg) \<and>
   fst (Film_add_screening (test_film [s0]) s0)
     = Some (ValidationError ''Screening already exists'') \<and>
   \<lparr>start = 315537895800000000, hall = 1\<rparr>
     \<notin> set (screenings (test_film [\<lparr>start = 315537894000000000, hall = 1\<rparr>])) \<and>
   valid_datetime 315537894000000000 \<and> valid_datetime 315537895800000000 \<and>
   {315537894000000000 ..< 315537894000000000 + timedelta_minutes 120} \<inter>
     {315537895800000000 ..< 315537895800000000 + timedelta_minutes 120} \<noteq> {} \<and>
   fst (Film_add_screening (test_film [\<lparr>start = 315537894000000000, hall = 1\<rparr>])
          \<lparr>start = 315537895800000000, hall = 1\<rparr>)
     = Some OverflowError"
  by (simp add: Film_add_screening_def timedelta_minutes_def datetime_add_def valid_datetime_def
      datetime_end_def ivl_inter_iff)

text \<open>
  Claim C6. The list of screenings is sorted by start, ascending, after every
  \<^verbatim>\<open>add_screening\<close> that returns, and it stays sorted through any sequence of calls, in
  any order of insertion, that begins with a sorted list, as the empty list of a new film is.
\<close>

theorem screenings_sorted_after_adds:
  "(fst (Film_add_screening f s) = None \<longrightarrow>
      sorted (map start (screenings (snd (Film_add_screening f s))))) \<and>
   (sorted (map start (screenings f)) \<longrightarrow>
      sorted (map start (screenings (add_screenings f ss))))"
  by (simp add: sorted_after_add add_screenings_sorted)

theorem screenings_sorted_after_adds_witness:
  "sorted (map start (screenings (test_film []))) \<and>
   add_screenings (test_film [])
     [\<lparr>start = T0 + timedelta_minutes 180, hall = 1\<rparr>, s0,
      \<lparr>start = T0 + timedelta_minutes 60, hall = 1\<rparr>, \<lparr>start = T0 + timedelta_minutes 60, hall = 2\<rparr>]
   = test_film [s0, \<lparr>start = T0 + timedelta_minutes 60, hall = 2\<rparr>,
       \<lparr>start = T0 + timedelta_minutes 180, hall = 1\<rparr>] \<and>
   fst (Film_add_screening (test_film [\<lparr>start = T0 + timedelta_minutes 180, hall = 1\<rparr>])
          s0) = None \<and>
   sorted (map start (screenings (snd (Film_add_screening
      (test_film [\<lparr>start = T0 + timedelta_minutes 180, hall = 1\<rparr>]) s0)))) \<and>
   sorted (map start (screenings (add_screenings (test_film [])
     [\<lparr>start = T0 + timedelta_minutes 180, hall = 1\<rparr>, s0,
      \<lparr>start = T0 + timedelta_minutes 60, hall = 1\<rparr>, \<lparr>start = T0 + timedelta_minutes 60, hall = 2\<rparr>])))"
  using screenings_sorted_after_adds [of "test_film [\<lparr>start = T0 + timedelta_minutes 180, hall = 1\<rparr>]"
      "s0"]
    screenings_sorted_after_adds [where f = "test_film []" and ss =
      "[\<lparr>start = T0 + timedelta_minutes 180, hall = 1\<rparr>, s0,
      \<lparr>start = T0 + timedelta_minutes 60, hall = 1\<rparr>, \<lparr>start = T0 + timedelta_minutes 60, hall = 2\<rparr>]"]
  by (simp add: Film_add_screening_def datetime_add_def valid_datetime_def timedelta_minutes_def
      datetime_end_def)

lemma add_screening_distinct:
  "distinct (screenings f) \<Longrightarrow> distinct (screenings (snd (Film_add_screening f s)))"
  by (auto simp: Film_add_screening_def split: option.splits)

lemma add_screenings_distinct:
  "distinct (screenings f) \<Longrightarrow> distinct (screenings (add_screenings f ss))"
  by (induction ss arbitrary: f) (auto simp: add_screening_distinct)

text \<open>
  Claim C9, as amended. In a film whose screenings are pairwise different, as
  \<^verbatim>\<open>add_screening\<close> keeps them, removing a screening \<open>s\<close> that has a promotion takes \<open>s\<close> out of the list and
  leaves the promotion dictionary as it was; \<^verbatim>\<open>get_promotion(s)\<close> then raises
  "Screening not found", and once \<open>s\<close> has been added again it returns the old promotion.
\<close>

theorem remove_screening_keeps_promotion:
  assumes "distinct (screenings f)" and "s \<in> set (screenings f)"
    and "map_of (promotions f) s = Some p"
  shows "Film_remove_screening f s = (None, f\<lparr>screenings := remove1 s (screenings f)\<rparr>) \<and>
    s \<notin> set (screenings (snd (Film_remove_screening f s))) \<and>
    promotions (snd (Film_remove_screening f s)) = promotions f \<and>
    Film_get_promotion (snd (Film_remove_screening f s)) s = Inl (ValueError ''Screening not found'') \<and>
    (fst (Film_add_screening (snd (Film_remove_screening f s)) s) = None \<longrightarrow>
       Film_get_promotion (snd (Film_add_screening (snd (Film_remove_screening f s)) s)) s
         = Inr (Some p))"
  using assms
  by (auto simp: Film_remove_screening_def Film_get_promotion_def Film_add_screening_def
      split: option.splits)

theorem remove_screening_keeps_promotion_witness:
  "distinct (screenings (promo_film [s0] [(s0, half_price)])) \<and>
   Film_get_promotion (promo_film [s0] [(s0, half_price)])
      s0 = Inr (Some half_price) \<and>
   Film_remove_screening (promo_film [s0] [(s0, half_price)])
      s0
     = (None, promo_film [] [(s0, half_price)]) \<and>
   Film_get_promotion (promo_film [] [(s0, half_price)]) s0
     = Inl (ValueError ''Screening not found'') \<and>
   Film_add_screening (promo_film [] [(s0, half_price)]) s0
     = (None, promo_film [s0] [(s0, half_price)]) \<and>
   Film_get_promotion (snd (Film_add_screening (snd (Film_remove_screening
        (promo_film [s0] [(s0, half_price)])
        s0)) s0)) s0
     = Inr (Some half_price)"
  using remove_screening_keeps_promotion [of
      "promo_film [s0] [(s0, half_price)]"
      "s0" half_price]
  by (simp add: Film_remove_screening_def Film_get_promotion_def Film_add_screening_def)

theorem remove_screening_duplicate_counterexample:
  "Film_init ''Test Film'' 120 ''PG-13'' [s0, s0] [(s0, half_price)]
     = Inr (promo_film [s0, s0] [(s0, half_price)]) \<and>
   s0 \<in> set (screenings (promo_film [s0, s0] [(s0, half_price)])) \<and>
   Film_get_promotion (promo_film [s0, s0] [(s0, half_price)]) s0 = Inr (Some half_price) \<and>
   Film_remove_screening (promo_film [s0, s0] [(s0, half_price)]) s0
     = (None, promo_film [s0] [(s0, half_price)]) \<and>
   Film_get_promotion (promo_film [s0] [(s0, half_price)]) s0 = Inr (Some half_price) \<and>
   Film_get_promotion (snd (Film_remove_screening (promo_film [s0, s0] [(s0, half_price)]) s0)) s0
     \<noteq> Inl (ValueError ''Screening not found'')"
  by (simp add: Film_init_def MIN_DURATION_def MAX_DURATION_def Film_remove_screening_def
      Film_get_promotion_def)

section \<open>Properties of the reservation ledger\<close>

lemma iso_T0: "isoformat T0 = ''2026-11-04T18:00:00''"
  by code_simp

lemmas cinema_defs = Cinema_reserve_def validate_reservation_request_def Cinema_available_seats_def
  Cinema_cancel_reservation_def validate_cancellation_request_def dict_get_def Let_def

lemma ledger_key_s0: "ledger_key s0 = key0"
  by (simp add: ledger_key_def iso_T0)

text \<open>
  Claim C4. \<^verbatim>\<open>Cinema.reserve\<close> checks, in this order: \<open>seats \<le> 0\<close> raises ValidationError;
  a screening that the film does not list raises ReservationError; a hall that the cinema
  does not hold raises ReservationError; more seats than the capacity less the seats
  reserved under the key raises ReservationError. A call that raises leaves the cinema as
  it was: after 101 seats are refused in a hall of 100, \<^verbatim>\<open>available_seats\<close> is still 100.
\<close>

theorem reserve_check_order:
  "(seats \<le> 0 \<longrightarrow>
      fst (Cinema_reserve c f s seats commit) = Some (ValidationError seats_msg)) \<and>
   (0 < seats \<and> s \<notin> set (screenings f) \<longrightarrow>
      fst (Cinema_reserve c f s seats commit) = Some (ReservationError not_in_film_msg)) \<and>
   (0 < seats \<and> s \<in> set (screenings f) \<and> map_of (halls c) (hall s) = None \<longrightarrow>
      fst (Cinema_reserve c f s seats commit) = Some (ReservationError not_registered_msg)) \<and>
   (0 < seats \<and> s \<in> set (screenings f) \<and> map_of (halls c) (hall s) = Some h \<and>
    seats > capacity h - dict_get (reservations c) (ledger_key s) 0 \<longrightarrow>
      fst (Cinema_reserve c f s seats commit) = Some (ReservationError only_left_msg)) \<and>
   (0 < seats \<and> s \<in> set (screenings f) \<and> map_of (halls c) (hall s) = Some h \<and>
    seats \<le> capacity h - dict_get (reservations c) (ledger_key s) 0 \<longrightarrow>
      fst (Cinema_reserve c f s seats commit) = None) \<and>
   (fst (Cinema_reserve c f s seats commit) \<noteq> None \<longrightarrow>
      snd (Cinema_reserve c f s seats commit) = c) \<and>
   (s \<in> set (screenings f) \<and> map_of (halls c) (hall s) = Some h \<and> capacity h = 100 \<and>
    map_of (reservations c) (ledger_key s) = None \<longrightarrow>
      Cinema_reserve c f s 101 commit = (Some (ReservationError only_left_msg), c) \<and>
      Cinema_available_seats (snd (Cinema_reserve c f s 101 commit)) s = Inr 100)"
  by (simp add: Cinema_reserve_def validate_reservation_request_def Cinema_available_seats_def
      dict_get_def Let_def split: option.splits)

theorem reserve_check_order_witness:
  "fst (Cinema_reserve (test_cinema []) (test_film []) \<lparr>start = T0, hall = 2\<rparr> 0 True)
     = Some (ValidationError seats_msg) \<and>
   s0 \<notin> set (screenings (test_film [])) \<and>
   fst (Cinema_reserve (test_cinema []) (test_film []) s0 5 True)
     = Some (ReservationError not_in_film_msg) \<and>
   \<lparr>start = T0, hall = 2\<rparr> \<in> set (screenings (test_film [\<lparr>start = T0, hall = 2\<rparr>])) \<and>
   map_of (halls (test_cinema [])) 2 = None \<and>
   fst (Cinema_reserve (test_cinema []) (test_film [\<lparr>start = T0, hall = 2\<rparr>]) \<lparr>start = T0, hall = 2\<rparr> 5 True)
     = Some (ReservationError not_registered_msg) \<and>
   s0 \<in> set (screenings (test_film [s0])) \<and>
   map_of (halls (test_cinema [])) (hall s0) = Some hall_100 \<and>
   map_of (reservations (test_cinema [])) (ledger_key s0) = None \<and>
   Cinema_reserve (test_cinema []) (test_film [s0]) s0 101 True
     = (Some (ReservationError only_left_msg), test_cinema []) \<and>
   Cinema_available_seats (snd (Cinema_reserve (test_cinema []) (test_film [s0]) s0 101 True)) s0
     = Inr 100 \<and>
   fst (Cinema_reserve (test_cinema []) (test_film [s0]) s0 100 True) = None"
  using reserve_check_order [of 0 "test_cinema []" "test_film []" "\<lparr>start = T0, hall = 2\<rparr>" True hall_100]
    reserve_check_order [of 5 "test_cinema []" "test_film []" s0 True hall_100]
    reserve_check_order [of 5 "test_cinema []" "test_film [\<lparr>start = T0, hall = 2\<rparr>]"
      "\<lparr>start = T0, hall = 2\<rparr>" True hall_100]
    reserve_check_order [of 101 "test_cinema []" "test_film [s0]" s0 True hall_100]
    reserve_check_order [of 100 "test_cinema []" "test_film [s0]" s0 True hall_100]
  by (simp add: dict_get_def ledger_key_s0)

text \<open>
  Claim C8. With \<^verbatim>\<open>commit=False\<close>, \<^verbatim>\<open>Cinema.reserve\<close> raises what it raises with
  \<^verbatim>\<open>commit=True\<close> on the same arguments, and it leaves the cinema, the ledger included,
  as it was.
\<close>

theorem reserve_dry_run:
  "fst (Cinema_reserve c f s seats False) = fst (Cinema_reserve c f s seats True) \<and>
   snd (Cinema_reserve c f s seats False) = c"
  by (simp add: Cinema_reserve_def Let_def split: option.splits)

text \<open>
  Claim C5, as amended. For a screening of the film in a registered hall and a positive
  number of seats, \<^verbatim>\<open>Cinema.cancel_reservation\<close> raises ReservationError, changing
  nothing, when the seats exceed the count reserved under the key, and otherwise lowers
  that entry by the seats and no other. In a hall of 100: reserving 50 and cancelling 30
  leaves 20 reserved and 80 available; cancelling 30 more raises ReservationError;
  cancelling 20 more succeeds and leaves 0; cancelling 1 more raises ReservationError.
\<close>

theorem cancel_reservation_decrements:
  "(0 < seats \<and> s \<in> set (screenings f) \<and> map_of (halls c) (hall s) = Some h \<and>
    seats > dict_get (reservations c) (ledger_key s) 0 \<longrightarrow>
      Cinema_cancel_reservation c f s seats = (Some (ReservationError only_reserved_msg), c)) \<and>
   (0 < seats \<and> s \<in> set (screenings f) \<and> map_of (halls c) (hall s) = Some h \<and>
    seats \<le> dict_get (reservations c) (ledger_key s) 0 \<longrightarrow>
      Cinema_cancel_reservation c f s seats =
        (None, c\<lparr>reservations := AList.update (ledger_key s)
                  (dict_get (reservations c) (ledger_key s) 0 - seats) (reservations c)\<rparr>) \<and>
      map_of (reservations (snd (Cinema_cancel_reservation c f s seats))) (ledger_key s)
        = Some (dict_get (reservations c) (ledger_key s) 0 - seats) \<and>
      (\<forall>k. k \<noteq> ledger_key s \<longrightarrow>
         map_of (reservations (snd (Cinema_cancel_reservation c f s seats))) k
           = map_of (reservations c) k)) \<and>
   (s \<in> set (screenings f) \<and> map_of (halls c) (hall s) = Some h \<and> capacity h = 100 \<and>
    map_of (reservations c) (ledger_key s) = None \<longrightarrow>
      (let c1 = snd (Cinema_reserve c f s 50 True);
           c2 = snd (Cinema_cancel_reservation c1 f s 30);
           c3 = snd (Cinema_cancel_reservation c2 f s 20)
       in fst (Cinema_reserve c f s 50 True) = None \<and>
          fst (Cinema_cancel_reservation c1 f s 30) = None \<and>
          map_of (reservations c2) (ledger_key s) = Some 20 \<and>
          Cinema_available_seats c2 s = Inr 80 \<and>
          Cinema_cancel_reservation c2 f s 30 = (Some (ReservationError only_reserved_msg), c2) \<and>
          fst (Cinema_cancel_reservation c2 f s 20) = None \<and>
          map_of (reservations c3) (ledger_key s) = Some 0 \<and>
          Cinema_cancel_reservation c3 f s 1 = (Some (ReservationError only_reserved_msg), c3)))"
proof (intro conjI)
  show "0 < seats \<and> s \<in> set (screenings f) \<and> map_of (halls c) (hall s) = Some h \<and>
    seats > dict_get (reservations c) (ledger_key s) 0 \<longrightarrow>
      Cinema_cancel_reservation c f s seats = (Some (ReservationError only_reserved_msg), c)"
    by (simp add: cinema_defs)
  show "0 < seats \<and> s \<in> set (screenings f) \<and> map_of (halls c) (hall s) = Some h \<and>
    seats \<le> dict_get (reservations c) (ledger_key s) 0 \<longrightarrow>
      Cinema_cancel_reservation c f s seats =
        (None, c\<lparr>reservations := AList.update (ledger_key s)
                  (dict_get (reservations c) (ledger_key s) 0 - seats) (reservations c)\<rparr>) \<and>
      map_of (reservations (snd (Cinema_cancel_reservation c f s seats))) (ledger_key s)
        = Some (dict_get (reservations c) (ledger_key s) 0 - seats) \<and>
      (\<forall>k. k \<noteq> ledger_key s \<longrightarrow>
         map_of (reservations (snd (Cinema_cancel_reservation c f s seats))) k
           = map_of (reservations c) k)"
    by (simp add: cinema_defs update_conv' split: option.splits)
  show "s \<in> set (screenings f) \<and> map_of (halls c) (hall s) = Some h \<and> capacity h = 100 \<and>
    map_of (reservations c) (ledger_key s) = None \<longrightarrow>
      (let c1 = snd (Cinema_reserve c f s 50 True);
           c2 = snd (Cinema_cancel_reservation c1 f s 30);
           c3 = snd (Cinema_cancel_reservation c2 f s 20)
       in fst (Cinema_reserve c f s 50 True) = None \<and>
          fst (Cinema_cancel_reservation c1 f s 30) = None \<and>
          map_of (reservations c2) (ledger_key s) = Some 20 \<and>
          Cinema_available_seats c2 s = Inr 80 \<and>
          Cinema_cancel_reservation c2 f s 30 = (Some (ReservationError only_reserved_msg), c2) \<and>
          fst (Cinema_cancel_reservation c2 f s 20) = None \<and>
          map_of (reservations c3) (ledger_key s) = Some 0 \<and>
          Cinema_cancel_reservation c3 f s 1 = (Some (ReservationError only_reserved_msg), c3))"
    by (simp add: cinema_defs update_conv')
qed

theorem cancel_reservation_decrements_witness:
  "s0 \<in> set (screenings (test_film [s0])) \<and>
   map_of (halls (test_cinema [(key0, 50)])) (hall s0) = Some hall_100 \<and>
   dict_get (reservations (test_cinema [(key0, 50)])) (ledger_key s0) 0 = 50 \<and>
   Cinema_cancel_reservation (test_cinema [(key0, 50)]) (test_film [s0]) s0 30
     = (None, test_cinema [(key0, 20)]) \<and>
   Cinema_cancel_reservation (test_cinema [(key0, 50)]) (test_film [s0]) s0 51
     = (Some (ReservationError only_reserved_msg), test_cinema [(key0, 50)]) \<and>
   map_of (reservations (test_cinema [])) (ledger_key s0) = None \<and>
   Cinema_reserve (test_cinema []) (test_film [s0]) s0 50 True = (None, test_cinema [(key0, 50)]) \<and>
   Cinema_available_seats (test_cinema [(key0, 20)]) s0 = Inr 80 \<and>
   Cinema_cancel_reservation (test_cinema [(key0, 20)]) (test_film [s0]) s0 20
     = (None, test_cinema [(key0, 0)]) \<and>
   Cinema_cancel_reservation (test_cinema [(key0, 0)]) (test_film [s0]) s0 1
     = (Some (ReservationError only_reserved_msg), test_cinema [(key0, 0)])"
  using cancel_reservation_decrements [of 30 s0 "test_film [s0]" "test_cinema [(key0, 50)]" hall_100]
    cancel_reservation_decrements [of 51 s0 "test_film [s0]" "test_cinema [(key0, 50)]" hall_100]
    cancel_reservation_decrements [of 1 s0 "test_film [s0]" "test_cinema []" hall_100]
  by (simp add: cinema_defs ledger_key_s0)

theorem cancel_30_more_counterexample:
  "Cinema_reserve (test_cinema []) (test_film [s0]) s0 50 True = (None, test_cinema [(key0, 50)]) \<and>
   Cinema_cancel_reservation (test_cinema [(key0, 50)]) (test_film [s0]) s0 30
     = (None, test_cinema [(key0, 20)]) \<and>
   Cinema_available_seats (test_cinema [(key0, 20)]) s0 = Inr 80 \<and>
   Cinema_cancel_reservation (test_cinema [(key0, 20)]) (test_film [s0]) s0 30
     = (Some (ReservationError only_reserved_msg), test_cinema [(key0, 20)])"
  by (simp add: cinema_defs ledger_key_s0)

section \<open>Properties of persistence\<close>

lemma update_fresh: "k \<notin> fst ` set al \<Longrightarrow> AList.update k v al = al @ [(k, v)]"
  by (induction al) auto

lemma fold_update_halls:
  "distinct (map fst (acc @ al)) \<Longrightarrow> list_all (\<lambda>(k, h). number h = k) al \<Longrightarrow>
   fold (\<lambda>h d. AList.update (number h) h d) (map snd al) acc = acc @ al"
proof (induction al arbitrary: acc)
  case Nil
  then show ?case by simp
next
  case (Cons p al)
  obtain k h where p: "p = (k, h)" by (cases p)
  with Cons.prems have k: "number h = k" "k \<notin> fst ` set acc" by auto
  have "fold (\<lambda>h d. AList.update (number h) h d) (map snd al) (acc @ [(k, h)]) = (acc @ [(k, h)]) @ al"
    using Cons.prems p by (intro Cons.IH) auto
  then show ?case using p k by (simp add: update_fresh)
qed

lemma fold_update_reservations:
  "distinct (map fst (acc @ rs)) \<Longrightarrow>
   fold (\<lambda>(key, r) d. AList.update key r d) rs acc = acc @ rs"
proof (induction rs arbitrary: acc)
  case Nil
  then show ?case by simp
next
  case (Cons p rs)
  obtain k r where p: "p = (k, r)" by (cases p)
  with Cons.prems have k: "k \<notin> fst ` set acc" by auto
  have "fold (\<lambda>(key, r) d. AList.update key r d) rs (acc @ [(k, r)]) = (acc @ [(k, r)]) @ rs"
    using Cons.prems p by (intro Cons.IH) auto
  then show ?case using p k by (simp add: update_fresh)
qed

lemma load_halls_payload:
  "list_all (\<lambda>h. 0 < capacity h) hs \<Longrightarrow> load_halls (map hall_json hs) = Inr (map dyn_of_hall hs)"
  by (induction hs) (auto simp: hall_json_def Hall_init_dyn_def dyn_of_hall_def)

lemma load_reservations_payload:
  "load_reservations (map reservation_json rs) = Inr (map dyn_of_reservation rs)"
  by (induction rs) (auto simp: reservation_json_def dyn_of_reservation_def)

lemma those_typed_halls: "those (map typed_hall (map dyn_of_hall hs)) = Some hs"
  by (induction hs) (auto simp: dyn_of_hall_def)

lemma those_typed_reservations:
  "those (map typed_reservation (map dyn_of_reservation rs)) = Some rs"
  by (induction rs) (auto simp: dyn_of_reservation_def)

lemma hashable_dyn_halls: "list_all (\<lambda>(n, c, a). hashable n) (map dyn_of_hall hs)"
  by (induction hs) (auto simp: dyn_of_hall_def)

lemma load_body_payload:
  assumes "list_all (\<lambda>h. 0 < capacity h) (map snd (halls c))"
  shows "load_body (Document (Cinema_payload c ts))
    = Inr (JStr (name c), map dyn_of_hall (map snd (halls c)), map dyn_of_reservation (reservations c))"
  using assms
  by (simp add: Cinema_payload_def load_halls_payload load_reservations_payload hashable_dyn_halls
      del: map_map)

lemma load_payload:
  assumes "cinema_inv c"
  shows "Cinema_load (Document (Cinema_payload c ts)) = Inr (Some c)"
proof -
  from assms have cap: "list_all (\<lambda>h. 0 < capacity h) (map snd (halls c))"
    and num: "list_all (\<lambda>(k, h). number h = k) (halls c)"
    and dh: "distinct (map fst ([] @ halls c))" and dr: "distinct (map fst ([] @ reservations c))"
    by (auto simp: cinema_inv_def list_all_iff)
  have tc: "typed_cinema (JStr (name c), map dyn_of_hall (map snd (halls c)),
          map dyn_of_reservation (reservations c)) = Some c"
    unfolding typed_cinema.simps those_typed_halls those_typed_reservations option.case
      Cinema_init_def
    using fold_update_halls [OF dh num] fold_update_reservations [OF dr] by simp
  show ?thesis
    unfolding Cinema_load_def load_body_payload [OF cap] sum.case tc by simp
qed

text \<open>
  Claim C3. For a cinema whose halls are stored under their own numbers with positive
  capacities, as the constructors and \<^verbatim>\<open>add_hall\<close> leave it, \<^verbatim>\<open>load\<close> of the file
  that \<^verbatim>\<open>save\<close> wrote returns a cinema with the same name, the same halls, each with its number, its capacity and the available seats it had
  when saved, and the same ledger; so \<^verbatim>\<open>available_seats\<close> answers on it as on the
  original, for every screening.
\<close>

theorem save_load_round_trip:
  "cinema_inv c \<longrightarrow>
     Cinema_save c ts Written old = (None, Document (Cinema_payload c ts)) \<and>
     Cinema_load (snd (Cinema_save c ts Written old)) = Inr (Some c) \<and>
     (case Cinema_load (snd (Cinema_save c ts Written old)) of
        Inr (Some c') \<Rightarrow>
          name c' = name c \<and> halls c' = halls c \<and> reservations c' = reservations c \<and>
          (\<forall>s. Cinema_available_seats c' s = Cinema_available_seats c s)
      | _ \<Rightarrow> False)"
  by (simp add: Cinema_save_def load_payload)

theorem save_load_round_trip_witness:
  "cinema_inv \<lparr>name = ''Test Cinema'', halls = [(1, hall_50_of_100)], reservations = [(key0, 50)]\<rparr> \<and>
   Cinema_load (snd (Cinema_save
       \<lparr>name = ''Test Cinema'', halls = [(1, hall_50_of_100)], reservations = [(key0, 50)]\<rparr>
       ''2026-11-03T12:00:00+00:00'' Written Unreadable))
     = Inr (Some \<lparr>name = ''Test Cinema'', halls = [(1, hall_50_of_100)], reservations = [(key0, 50)]\<rparr>) \<and>
   Cinema_available_seats
       \<lparr>name = ''Test Cinema'', halls = [(1, hall_50_of_100)], reservations = [(key0, 50)]\<rparr> s0
     = Inr 50"
proof -
  have inv: "cinema_inv \<lparr>name = ''Test Cinema'', halls = [(1, hall_50_of_100)], reservations = [(key0, 50)]\<rparr>"
    by (simp add: cinema_inv_def)
  with save_load_round_trip [of
      "\<lparr>name = ''Test Cinema'', halls = [(1, hall_50_of_100)], reservations = [(key0, 50)]\<rparr>"
      "''2026-11-03T12:00:00+00:00''" Unreadable]
  have "Cinema_load (snd (Cinema_save
       \<lparr>name = ''Test Cinema'', halls = [(1, hall_50_of_100)], reservations = [(key0, 50)]\<rparr>
       ''2026-11-03T12:00:00+00:00'' Written Unreadable))
     = Inr (Some \<lparr>name = ''Test Cinema'', halls = [(1, hall_50_of_100)], reservations = [(key0, 50)]\<rparr>)"
    by blast
  with inv show ?thesis by (simp add: cinema_defs ledger_key_s0)
qed

section \<open>The ledger invariant over sequences of operations\<close>

lemma load_halls_nonpositive:
  "\<exists>h\<in>set hs. capacity h \<le> 0 \<Longrightarrow>
   load_halls (map hall_json hs) = Inl (ValidationError capacity_msg)"
proof (induction hs)
  case Nil
  then show ?case by simp
next
  case (Cons h hs)
  show ?case
  proof (cases "capacity h \<le> 0")
    case True
    then show ?thesis by (simp add: hall_json_def Hall_init_dyn_def)
  next
    case False
    with Cons show ?thesis by (simp add: hall_json_def Hall_init_dyn_def)
  qed
qed

lemma load_payload_nonpositive:
  assumes "\<exists>h\<in>set (map snd (halls c)). capacity h \<le> 0"
  shows "Cinema_load (Document (Cinema_payload c ts)) = Inl (ValidationError capacity_msg)"
proof -
  from assms
  have "load_halls (map hall_json (map snd (halls c))) = Inl (ValidationError capacity_msg)"
    by (rule load_halls_nonpositive)
  then show ?thesis
    by (simp add: Cinema_load_def Cinema_payload_def del: map_map)
qed

lemma load_payload_keys:
  assumes "cinema_keys c"
  shows "Cinema_load (Document (Cinema_payload c ts)) = Inr (Some c) \<or>
         Cinema_load (Document (Cinema_payload c ts)) = Inl (ValidationError capacity_msg)"
proof (cases "\<exists>h\<in>set (map snd (halls c)). capacity h \<le> 0")
  case True
  then show ?thesis by (simp add: load_payload_nonpositive)
next
  case False
  with assms have "cinema_inv c"
    by (fastforce simp: cinema_inv_def cinema_keys_def list_all_iff)
  then show ?thesis by (simp add: load_payload)
qed

lemma ledger_ok_iff:
  "ledger_ok c \<longleftrightarrow>
     (\<forall>k t r. ((k, t), r) \<in> set (reservations c) \<longrightarrow>
        0 \<le> r \<and> (\<forall>h. map_of (halls c) k = Some h \<longrightarrow> r \<le> capacity h))"
  unfolding ledger_ok_def list_all_iff by (fastforce split: option.splits)

lemma set_update_subset: "set (AList.update k v al) \<subseteq> insert (k, v) (set al)"
  by (induction al) auto

lemma numbers_update:
  assumes "list_all (\<lambda>(k, h). number h = k) al"
  shows "list_all (\<lambda>(k, h). number h = k) (AList.update (number h) h al)"
  using assms set_update_subset [of "number h" h al] by (auto simp: list_all_iff)

lemma halls_ok_update:
  assumes "list_all (\<lambda>(k, h). number h = k \<and> 0 < capacity h) al" and "0 < capacity h"
  shows "list_all (\<lambda>(k, h). number h = k \<and> 0 < capacity h) (AList.update (number h) h al)"
  using assms set_update_subset [of "number h" h al] by (auto simp: list_all_iff)

lemma set_delete_subset: "set (AList.delete k al) \<subseteq> set al"
  by (auto simp: AList.delete_eq)

lemma add_hall_keys: "cinema_keys c \<Longrightarrow> cinema_keys (snd (Cinema_add_hall c h ow))"
  by (simp add: Cinema_add_hall_def cinema_keys_def distinct_update numbers_update)

lemma remove_hall_keys: "cinema_keys c \<Longrightarrow> cinema_keys (snd (Cinema_remove_hall c h))"
  using set_delete_subset [of "number h" "halls c"]
  by (auto simp: Cinema_remove_hall_def cinema_keys_def distinct_delete list_all_iff)

lemma reserve_keys: "cinema_keys c \<Longrightarrow> cinema_keys (snd (Cinema_reserve c f s n commit))"
  by (simp add: Cinema_reserve_def Let_def cinema_keys_def distinct_update split: option.splits)

lemma cancel_keys: "cinema_keys c \<Longrightarrow> cinema_keys (snd (Cinema_cancel_reservation c f s n))"
  by (simp add: Cinema_cancel_reservation_def Let_def cinema_keys_def distinct_update
      split: option.splits)

lemma add_hall_ledger:
  assumes "ledger_ok c" and "op_ok c (Add_hall h ow)"
  shows "ledger_ok (snd (Cinema_add_hall c h ow))"
proof (cases "ow \<or> map_of (halls c) (number h) = None")
  case False
  then have "snd (Cinema_add_hall c h ow) = c" by (simp add: Cinema_add_hall_def)
  with assms show ?thesis by simp
next
  case True
  then have c': "snd (Cinema_add_hall c h ow) = c\<lparr>halls := AList.update (number h) h (halls c)\<rparr>"
    by (auto simp: Cinema_add_hall_def)
  from True assms(2)
  have "\<forall>k t r. ((k, t), r) \<in> set (reservations c) \<longrightarrow> k = number h \<longrightarrow> r \<le> capacity h"
    by (auto simp: list_all_iff)
  with assms(1) have "ledger_ok (c\<lparr>halls := AList.update (number h) h (halls c)\<rparr>)"
    unfolding ledger_ok_iff by (auto simp: update_conv')
  then show ?thesis by (simp add: c')
qed

lemma remove_hall_ledger:
  assumes "ledger_ok c"
  shows "ledger_ok (snd (Cinema_remove_hall c h))"
proof -
  have "ledger_ok (c\<lparr>halls := AList.delete (number h) (halls c)\<rparr>)"
    using assms unfolding ledger_ok_iff by (auto simp: delete_conv')
  with assms show ?thesis by (simp add: Cinema_remove_hall_def)
qed

lemma already_reserved_bounds:
  assumes "ledger_ok c"
  shows "0 \<le> dict_get (reservations c) key 0 \<and>
         (map_of (halls c) (fst key) = Some h \<longrightarrow>
            dict_get (reservations c) key 0 \<le> max 0 (capacity h))"
proof (cases "map_of (reservations c) key")
  case None
  then show ?thesis by (simp add: dict_get_def)
next
  case (Some r)
  then have "(key, r) \<in> set (reservations c)" by (rule map_of_SomeD)
  then have "((fst key, snd key), r) \<in> set (reservations c)" by simp
  with assms have "0 \<le> r \<and> (map_of (halls c) (fst key) = Some h \<longrightarrow> r \<le> capacity h)"
    unfolding ledger_ok_iff by blast
  with Some show ?thesis by (auto simp: dict_get_def)
qed

lemma ledger_ok_update:
  assumes "ledger_ok c" and "0 \<le> v"
    and "\<forall>h. map_of (halls c) (fst key) = Some h \<longrightarrow> v \<le> capacity h"
  shows "ledger_ok (c\<lparr>reservations := AList.update key v (reservations c)\<rparr>)"
proof -
  have "0 \<le> r \<and> (\<forall>h. map_of (halls c) k = Some h \<longrightarrow> r \<le> capacity h)"
    if "((k, t), r) \<in> set (AList.update key v (reservations c))" for k t r
  proof (cases "((k, t), r) = (key, v)")
    case True
    with assms(2,3) show ?thesis by auto
  next
    case False
    with that set_update_subset [of key v "reservations c"]
    have "((k, t), r) \<in> set (reservations c)" by auto
    with assms(1) show ?thesis unfolding ledger_ok_iff by blast
  qed
  then show ?thesis unfolding ledger_ok_iff by simp
qed

lemma reserve_ledger:
  assumes "ledger_ok c"
  shows "ledger_ok (snd (Cinema_reserve c f s n commit))"
proof (cases "validate_reservation_request c f s n")
  case (Some e)
  with assms show ?thesis by (simp add: Cinema_reserve_def)
next
  case None
  then obtain h where h: "map_of (halls c) (fst (ledger_key s)) = Some h" and "0 < n"
    and "n \<le> capacity h - dict_get (reservations c) (ledger_key s) 0"
    by (auto simp: validate_reservation_request_def ledger_key_def Let_def
        split: if_splits option.splits)
  moreover have "0 \<le> dict_get (reservations c) (ledger_key s) 0"
    using already_reserved_bounds [OF assms] by simp
  ultimately have "ledger_ok (c\<lparr>reservations := AList.update (ledger_key s)
      (dict_get (reservations c) (ledger_key s) 0 + n) (reservations c)\<rparr>)"
    by (intro ledger_ok_update [OF assms]) auto
  with None assms show ?thesis by (simp add: Cinema_reserve_def Let_def)
qed

lemma cancel_ledger:
  assumes "ledger_ok c"
  shows "ledger_ok (snd (Cinema_cancel_reservation c f s n))"
proof (cases "validate_cancellation_request c f s n")
  case (Some e)
  with assms show ?thesis by (simp add: Cinema_cancel_reservation_def)
next
  case None
  then obtain h where h: "map_of (halls c) (fst (ledger_key s)) = Some h" and n: "0 < n"
    "n \<le> dict_get (reservations c) (ledger_key s) 0"
    by (auto simp: validate_cancellation_request_def ledger_key_def Let_def
        split: if_splits option.splits)
  moreover have "dict_get (reservations c) (ledger_key s) 0 \<le> max 0 (capacity h)"
    using already_reserved_bounds [OF assms, of "ledger_key s" h] h by simp
  ultimately have "ledger_ok (c\<lparr>reservations := AList.update (ledger_key s)
      (dict_get (reservations c) (ledger_key s) 0 - n) (reservations c)\<rparr>)"
    by (intro ledger_ok_update [OF assms]) auto
  with None assms show ?thesis by (simp add: Cinema_cancel_reservation_def Let_def)
qed

lemma step_inv:
  assumes "world_inv w" and "op_ok (cinema w) x"
  shows "world_inv (step w x)"
proof (cases x)
  case (Add_hall h ow)
  then show ?thesis using assms add_hall_ledger [of "cinema w" h ow]
    by (simp add: world_inv_def add_hall_keys)
next
  case (Remove_hall h)
  then show ?thesis using assms
    by (simp add: world_inv_def remove_hall_keys remove_hall_ledger)
next
  case (Reserve f s n commit)
  then show ?thesis using assms by (simp add: world_inv_def reserve_keys reserve_ledger)
next
  case (Cancel_reservation f s n)
  then show ?thesis using assms by (simp add: world_inv_def cancel_keys cancel_ledger)
next
  case (Save path ts wr)
  then show ?thesis using assms
    by (cases wr) (auto simp: world_inv_def Cinema_save_def)
next
  case (Load path)
  show ?thesis
  proof (cases "files w path")
    case (Document d)
    with assms obtain c ts where d: "d = Cinema_payload c ts" and c: "cinema_keys c" "ledger_ok c"
      unfolding world_inv_def by blast
    from load_payload_keys [OF c(1), of ts] show ?thesis
    proof
      assume "Cinema_load (Document (Cinema_payload c ts)) = Inr (Some c)"
      then show ?thesis using Load Document d assms c by (simp add: world_inv_def)
    next
      assume "Cinema_load (Document (Cinema_payload c ts)) = Inl (ValidationError capacity_msg)"
      then show ?thesis using Load Document d assms by simp
    qed
  next
    case Unreadable
    then show ?thesis using Load assms by (simp add: Cinema_load_def)
  next
    case Not_JSON
    then show ?thesis using Load assms by (simp add: Cinema_load_def)
  next
    case Too_deep
    then show ?thesis using Load assms by (simp add: Cinema_load_def)
  next
    case Int_too_long
    then show ?thesis using Load assms by (simp add: Cinema_load_def)
  qed
qed

lemma run_inv: "world_inv w \<Longrightarrow> run_ok w xs \<Longrightarrow> world_inv (run w xs)"
  by (induction xs arbitrary: w) (auto simp: step_inv)

lemma fold_update_keys:
  "distinct (map fst acc) \<Longrightarrow> list_all (\<lambda>(k, h). number h = k) acc \<Longrightarrow>
   distinct (map fst (fold (\<lambda>h d. AList.update (number h) h d) hs acc)) \<and>
   list_all (\<lambda>(k, h). number h = k) (fold (\<lambda>h d. AList.update (number h) h d) hs acc)"
  by (induction hs arbitrary: acc) (auto simp: distinct_update numbers_update)

lemma new_world_inv: "world_inv (new_world nm hs)"
  using fold_update_keys [of "[]" hs]
  by (simp add: world_inv_def new_world_def Cinema_init_def cinema_keys_def ledger_ok_def)

lemma fold_update_inv:
  "distinct (map fst acc) \<Longrightarrow> list_all (\<lambda>(k, h). number h = k \<and> 0 < capacity h) acc \<Longrightarrow>
   list_all (\<lambda>h. 0 < capacity h) hs \<Longrightarrow>
   distinct (map fst (fold (\<lambda>h d. AList.update (number h) h d) hs acc)) \<and>
   list_all (\<lambda>(k, h). number h = k \<and> 0 < capacity h) (fold (\<lambda>h d. AList.update (number h) h d) hs acc)"
  by (induction hs arbitrary: acc) (auto simp: distinct_update halls_ok_update)

lemma new_world_cinema_inv:
  "list_all (\<lambda>h. 0 < capacity h) hs \<Longrightarrow> cinema_inv (cinema (new_world nm hs))"
  using fold_update_inv [of "[]" hs]
  by (simp add: new_world_def Cinema_init_def cinema_inv_def)

lemma add_hall_cinema_inv:
  "cinema_inv c \<Longrightarrow> 0 < capacity h \<Longrightarrow> cinema_inv (snd (Cinema_add_hall c h ow))"
  by (simp add: Cinema_add_hall_def cinema_inv_def distinct_update halls_ok_update)

lemma remove_hall_cinema_inv: "cinema_inv c \<Longrightarrow> cinema_inv (snd (Cinema_remove_hall c h))"
  using set_delete_subset [of "number h" "halls c"]
  by (auto simp: Cinema_remove_hall_def cinema_inv_def distinct_delete list_all_iff)

lemma reserve_cinema_inv: "cinema_inv c \<Longrightarrow> cinema_inv (snd (Cinema_reserve c f s n commit))"
  by (simp add: Cinema_reserve_def Let_def cinema_inv_def distinct_update split: option.splits)

lemma cancel_cinema_inv: "cinema_inv c \<Longrightarrow> cinema_inv (snd (Cinema_cancel_reservation c f s n))"
  by (simp add: Cinema_cancel_reservation_def Let_def cinema_inv_def distinct_update
      split: option.splits)

lemma step_cinema_inv:
  assumes "cinema_inv (cinema w)" and "files_ok w" and "hall_arg_ok x"
  shows "cinema_inv (cinema (step w x)) \<and> files_ok (step w x)"
proof (cases x)
  case (Add_hall h ow)
  then show ?thesis using assms by (simp add: add_hall_cinema_inv files_ok_def)
next
  case (Remove_hall h)
  then show ?thesis using assms by (simp add: remove_hall_cinema_inv files_ok_def)
next
  case (Reserve f s n commit)
  then show ?thesis using assms by (simp add: reserve_cinema_inv files_ok_def)
next
  case (Cancel_reservation f s n)
  then show ?thesis using assms by (simp add: cancel_cinema_inv files_ok_def)
next
  case (Save path ts wr)
  then show ?thesis using assms by (cases wr) (auto simp: files_ok_def Cinema_save_def)
next
  case (Load path)
  show ?thesis
  proof (cases "files w path")
    case (Document d)
    with assms obtain c ts where "d = Cinema_payload c ts" and c: "cinema_inv c"
      unfolding files_ok_def by blast
    then have "Cinema_load (files w path) = Inr (Some c)"
      using Document load_payload [OF c] by simp
    then show ?thesis using Load assms c by (simp add: files_ok_def)
  next
    case Unreadable
    then show ?thesis using Load assms by (simp add: Cinema_load_def files_ok_def)
  next
    case Not_JSON
    then show ?thesis using Load assms by (simp add: Cinema_load_def files_ok_def)
  next
    case Too_deep
    then show ?thesis using Load assms by (simp add: Cinema_load_def files_ok_def)
  next
    case Int_too_long
    then show ?thesis using Load assms by (simp add: Cinema_load_def files_ok_def)
  qed
qed

lemma run_cinema_inv:
  "cinema_inv (cinema w) \<Longrightarrow> files_ok w \<Longrightarrow> list_all hall_arg_ok xs \<Longrightarrow>
   cinema_inv (cinema (run w xs)) \<and> files_ok (run w xs)"
  by (induction xs arbitrary: w) (auto simp: step_cinema_inv)

lemma reachable_cinema_inv:
  "list_all (\<lambda>h. 0 < capacity h) hs \<Longrightarrow> list_all hall_arg_ok xs \<Longrightarrow>
   cinema_inv (cinema (run (new_world nm hs) xs))"
  using run_cinema_inv [of "new_world nm hs" xs] new_world_cinema_inv [of hs nm]
  by (simp add: files_ok_def new_world_def)

lemmas world_defs = new_world_def Cinema_init_def Cinema_add_hall_def Cinema_remove_hall_def
  ledger_ok_def

text \<open>
  Claim C2, as amended. Start from a new cinema and make any sequence of calls of
  \<^verbatim>\<open>add_hall\<close>, \<^verbatim>\<open>remove_hall\<close>, \<^verbatim>\<open>reserve\<close>, \<^verbatim>\<open>cancel_reservation\<close>, \<^verbatim>\<open>save\<close> and
  \<^verbatim>\<open>load\<close>, the files being those that \<^verbatim>\<open>save\<close> wrote, in which no \<^verbatim>\<open>add_hall\<close>
  installs a hall whose capacity is below a count reserved under its number. Then no
  ledger entry holds a negative count, and none holds more than the capacity of the hall
  its key names, when the cinema holds a hall of that number; \<^verbatim>\<open>remove_hall\<close> leaves the
  entries of the hall it removes in the ledger.
\<close>

theorem ledger_within_capacity:
  "run_ok (new_world nm hs) xs \<longrightarrow> ledger_ok (cinema (run (new_world nm hs) xs))"
  using run_inv [OF new_world_inv, of nm hs xs] by (simp add: world_inv_def)

theorem ledger_within_capacity_witness:
  "run_ok (new_world ''Test Cinema'' [hall_100]) guarded_run \<and>
   cinema (run (new_world ''Test Cinema'' [hall_100]) guarded_run)
     = \<lparr>name = ''Test Cinema'', halls = [(1, hall_25)], reservations = [(key0, 20)]\<rparr> \<and>
   ledger_ok (cinema (run (new_world ''Test Cinema'' [hall_100]) guarded_run))"
  using ledger_within_capacity [of "''Test Cinema''" "[hall_100]" guarded_run]
  by (simp add: world_defs cinema_defs ledger_key_s0 Cinema_save_def Cinema_load_def
      Cinema_payload_def hall_json_def reservation_json_def Hall_init_dyn_def)

theorem ledger_overwrite_counterexample:
  "cinema (run (new_world ''Test Cinema'' [])
      [Add_hall hall_100 False, Reserve (test_film [s0]) s0 50 True, Add_hall hall_10 True])
     = \<lparr>name = ''Test Cinema'', halls = [(1, hall_10)], reservations = [(key0, 50)]\<rparr> \<and>
   \<not> ledger_ok (cinema (run (new_world ''Test Cinema'' [])
      [Add_hall hall_100 False, Reserve (test_film [s0]) s0 50 True, Add_hall hall_10 True])) \<and>
   cinema (run (new_world ''Test Cinema'' [])
      [Add_hall hall_100 False, Reserve (test_film [s0]) s0 50 True, Remove_hall hall_100])
     = \<lparr>name = ''Test Cinema'', halls = [], reservations = [(key0, 50)]\<rparr> \<and>
   Cinema_hall (cinema (run (new_world ''Test Cinema'' [])
      [Add_hall hall_100 False, Reserve (test_film [s0]) s0 50 True, Remove_hall hall_100])) 1
     = Inl KeyError \<and>
   cinema (run (new_world ''Test Cinema'' [])
      [Add_hall hall_100 False, Reserve (test_film [s0]) s0 50 True, Remove_hall hall_100,
       Add_hall hall_10 False])
     = \<lparr>name = ''Test Cinema'', halls = [(1, hall_10)], reservations = [(key0, 50)]\<rparr> \<and>
   \<not> ledger_ok (cinema (run (new_world ''Test Cinema'' [])
      [Add_hall hall_100 False, Reserve (test_film [s0]) s0 50 True, Remove_hall hall_100,
       Add_hall hall_10 False]))"
  by (simp add: world_defs cinema_defs ledger_key_s0 Cinema_hall_def)

section \<open>The exceptions of load\<close>


lemma load_parse_failures:
  "Cinema_load Too_deep = Inl RecursionError \<and> Cinema_load Int_too_long = Inl (IOError load_msg)"
  by (simp add: Cinema_load_def)





end
